theory Spec2Isabelle
  imports Complex_Main "HOL-Library.Word"
begin

section \<open>JavaScript numbers\<close>

text \<open>
  The values the component receives (container size, sample rate, EQ frequencies and
  gains) are finite doubles; they are modelled as reals, so rounding is abstracted away.
  The operations of the source that can leave the finite numbers (a division by an array
  length, \<open>Math.log10\<close> of a number coming from a JSON reply) return a \<open>jsnum\<close>, where
  \<open>Infinity\<close>, \<open>-Infinity\<close> and \<open>NaN\<close> are values of their own: JavaScript arithmetic
  never throws.
\<close>

datatype jsnum = Fin real | PosInf | NegInf | NaN

definition js_div :: "real \<Rightarrow> real \<Rightarrow> jsnum" where
  \<comment> \<open>\<open>a / b\<close> for finite \<open>a\<close> and a finite \<open>b\<close> that is not \<open>-0\<close> (an array length)\<close>
  "js_div a b =
     (if b \<noteq> 0 then Fin (a / b)
      else if 0 < a then PosInf
      else if a < 0 then NegInf
      else NaN)"

definition js_log10 :: "real \<Rightarrow> jsnum" where
  \<comment> \<open>\<open>Math.log10\<close>\<close>
  "js_log10 x = (if 0 < x then Fin (log 10 x) else if x = 0 then NegInf else NaN)"

fun js_sub :: "jsnum \<Rightarrow> jsnum \<Rightarrow> jsnum" where
  "js_sub NaN _ = NaN"
| "js_sub _ NaN = NaN"
| "js_sub (Fin a) (Fin b) = Fin (a - b)"
| "js_sub (Fin a) PosInf = NegInf"
| "js_sub (Fin a) NegInf = PosInf"
| "js_sub PosInf PosInf = NaN"
| "js_sub PosInf _ = PosInf"
| "js_sub NegInf NegInf = NaN"
| "js_sub NegInf _ = NegInf"

fun js_abs :: "jsnum \<Rightarrow> jsnum" where
  \<comment> \<open>\<open>Math.abs\<close>\<close>
  "js_abs (Fin a) = Fin \<bar>a\<bar>"
| "js_abs PosInf = PosInf"
| "js_abs NegInf = PosInf"
| "js_abs NaN = NaN"

fun js_less :: "jsnum \<Rightarrow> jsnum \<Rightarrow> bool" where
  \<comment> \<open>\<open>a < b\<close>; every comparison with \<open>NaN\<close> is false\<close>
  "js_less NaN _ = False"
| "js_less _ NaN = False"
| "js_less (Fin a) (Fin b) = (a < b)"
| "js_less (Fin a) PosInf = True"
| "js_less (Fin a) NegInf = False"
| "js_less PosInf _ = False"
| "js_less NegInf NegInf = False"
| "js_less NegInf _ = True"

section \<open>Data model\<close>

text \<open>\<open>EQSetting\<close> of \<open>types.ts\<close>.\<close>

record EQSetting =
  frequency :: real
  gain :: real

text \<open>The object literal \<open>{frequency, amplitude}\<close> that \<open>drawChart\<close> builds for each bin.\<close>

record datum =
  d_frequency :: real
  amplitude :: "8 word"

text \<open>The attributes of one \<open>rect.bar\<close>.\<close>

record bar =
  bar_x :: real
  bar_y :: real
  bar_width :: jsnum
  bar_height :: real
  bar_fill :: string

text \<open>
  The content of the \<open>svg\<close> element. The two axes are drawn by the charting library and
  are kept opaque, with the scale range and the offset they are drawn at; a text node has
  its x, y, whether it is rotated by -90 degrees, its fill and its content.
\<close>

datatype node =
    G real real "node list"
  | AxisBottom real real
  | AxisLeft real
  | TextNode real real bool string string
  | Rect bar

fun rectsOf :: "node \<Rightarrow> bar list" where
  "rectsOf (G _ _ ns) = concat (map rectsOf ns)"
| "rectsOf (Rect b) = [b]"
| "rectsOf _ = []"

definition bars :: "node list \<Rightarrow> bar list" where
  "bars svg = concat (map rectsOf svg)"

section \<open>The renderer: \<open>drawChart\<close>\<close>

definition scaleLog :: "real \<Rightarrow> real \<Rightarrow> real \<Rightarrow> real \<Rightarrow> real \<Rightarrow> real" where
  \<comment> \<open>the library's logarithmic scale with domain \<open>[d0, d1]\<close> and range \<open>[r0, r1]\<close>;
      the source applies it to frequencies in \<open>[20, 20000]\<close> only\<close>
  "scaleLog d0 d1 r0 r1 v = r0 + (log 10 v - log 10 d0) / (log 10 d1 - log 10 d0) * (r1 - r0)"

definition scaleLinear :: "real \<Rightarrow> real \<Rightarrow> real \<Rightarrow> real \<Rightarrow> real \<Rightarrow> real" where
  "scaleLinear d0 d1 r0 r1 v = r0 + (v - d0) / (d1 - d0) * (r1 - r0)"

definition margin_top :: real where "margin_top = 20"
definition margin_right :: real where "margin_right = 20"
definition margin_bottom :: real where "margin_bottom = 40"
definition margin_left :: real where "margin_left = 50"

definition binData :: "8 word list \<Rightarrow> real \<Rightarrow> datum list" where
  \<comment> \<open>\<open>const data = Array.from(dataArray).map(...).filter(...)\<close>\<close>
  "binData dataArray sampleRate =
     filter (\<lambda>d. d_frequency d \<ge> 20 \<and> d_frequency d \<le> 20000)
       (map (\<lambda>(i, d). \<lparr>d_frequency = (real i * sampleRate) / (2 * real (length dataArray)),
                        amplitude = d\<rparr>)
            (enumerate 0 dataArray))"

definition barWidth :: "real \<Rightarrow> datum list \<Rightarrow> jsnum" where
  \<comment> \<open>\<open>const barWidth = width / data.length\<close>\<close>
  "barWidth width data = js_div width (real (length data))"

definition widthAttr :: "jsnum \<Rightarrow> jsnum" where
  \<comment> \<open>\<open>barWidth > 0 ? barWidth : 1\<close>\<close>
  "widthAttr bw = (if js_less (Fin 0) bw then bw else Fin 1)"

definition closeTo :: "real \<Rightarrow> EQSetting \<Rightarrow> bool" where
  \<comment> \<open>the predicate handed to \<open>eqSettings.find\<close>, for a bin of frequency \<open>f\<close>\<close>
  "closeTo f eq = js_less (js_abs (js_sub (js_log10 (frequency eq)) (js_log10 f))) (Fin (1 / 10))"

definition fill :: "EQSetting list \<Rightarrow> datum \<Rightarrow> string" where
  "fill eqSettings d =
     (case find (closeTo (d_frequency d)) eqSettings of
        Some closestEq \<Rightarrow> if gain closestEq > 0 then ''#22c55e'' else ''#ef4444''
      | None \<Rightarrow> ''#00BFFF'')"

definition mkBar :: "real \<Rightarrow> real \<Rightarrow> jsnum \<Rightarrow> EQSetting list \<Rightarrow> datum \<Rightarrow> bar" where
  "mkBar width height bw eqSettings d =
     \<lparr>bar_x = scaleLog 20 20000 0 width (d_frequency d),
      bar_y = scaleLinear 0 255 height 0 (real (unat (amplitude d))),
      bar_width = widthAttr bw,
      bar_height = height - scaleLinear 0 255 height 0 (real (unat (amplitude d))),
      bar_fill = fill eqSettings d\<rparr>"

definition frame :: "real \<Rightarrow> real \<Rightarrow> node list" where
  \<comment> \<open>the two axes and the two axis labels\<close>
  "frame width height =
     [AxisBottom width height,
      AxisLeft height,
      TextNode (width / 2) (height + margin_bottom - 5) False ''#9ca3af'' ''Frequency (Hz)'',
      TextNode (- height / 2) (- margin_left + 15) True ''#9ca3af'' ''Amplitude'']"

definition placeholder :: "string option \<Rightarrow> string" where
  \<comment> \<open>\<open>message || "No audio data to display."\<close>: an absent or empty message falls back\<close>
  "placeholder message =
     (case message of
        None \<Rightarrow> ''No audio data to display.''
      | Some m \<Rightarrow> if m = [] then ''No audio data to display.'' else m)"

text \<open>
  \<open>drawChart\<close> rewrites the content of the \<open>svg\<close> element. The container is \<open>None\<close> when
  \<open>d3Container.current\<close> is null (nothing is selected, nothing changes), and otherwise
  the width and height that \<open>getBoundingClientRect\<close> reports.
\<close>

definition drawChart ::
  "(real \<times> real) option \<Rightarrow> EQSetting list \<Rightarrow> 8 word list \<Rightarrow> real \<Rightarrow> string option
     \<Rightarrow> node list \<Rightarrow> node list" where
  "drawChart container eqSettings dataArray sampleRate message svg =
     (case container of
        None \<Rightarrow> svg
      | Some (containerWidth, containerHeight) \<Rightarrow>
          let width = containerWidth - margin_left - margin_right;
              height = containerHeight - margin_top - margin_bottom
          in if width \<le> 0 \<or> height \<le> 0 then []
             else if length dataArray = 0 \<or> sampleRate = 0 then
               [G margin_left margin_top
                  (frame width height @
                   [TextNode (width / 2) (height / 2) False ''#e5e7eb'' (placeholder message)])]
             else
               let data = binData dataArray sampleRate;
                   bw = barWidth width data
               in [G margin_left margin_top
                     (frame width height @ map (\<lambda>d. Rect (mkBar width height bw eqSettings d)) data)])"

section \<open>The capturer: \<open>processAudio\<close>, its timer callback and the effect's cleanup\<close>

text \<open>
  The source only ever tests the state of the audio context against \<open>'closed'\<close>, so
  \<open>'suspended'\<close> and \<open>'running'\<close> are one state here.
\<close>

datatype ctx_state = Running | Closed

text \<open>What the source reads of the decoded \<open>AudioBuffer\<close>.\<close>

record AudioBuffer =
  buf_sampleRate :: real
  buf_duration :: real

text \<open>
  The three arguments of one call of \<open>drawChart\<close>: the magnitudes, the sample rate and
  the optional message.
\<close>

record snapshot =
  magnitudes :: "8 word list"
  rate :: real
  diagnosticMessage :: "string option"

text \<open>
  \<open>processAudio\<close> is an async function: it runs up to an \<open>await\<close>, and its continuation
  runs when the awaited promise settles. \<open>task\<close> is where it stands.
\<close>

datatype task = NotStarted | AwaitingBytes | AwaitingDecode | Resolved | Rejected

text \<open>
  Everything one run of the effect can change. \<open>audioContext\<close> is the variable of that
  name (\<open>None\<close> is null); \<open>timer\<close> is the pending \<open>setTimeout\<close> callback with the buffer it
  captured; \<open>playback\<close> is the offset and duration given to \<open>source.start\<close>. The counters
  and \<open>drawn\<close> record the calls made: of \<open>close()\<close>, of \<open>close()\<close> on a context that is
  closed already (the host answers those with a rejected promise that nothing handles),
  of \<open>getByteFrequencyData\<close>, of \<open>source.stop()\<close>, and of \<open>drawChart\<close> with its arguments,
  oldest first.
\<close>

record world =
  audioContext :: "ctx_state option"
  task :: task
  timer :: "AudioBuffer option"
  playback :: "(real \<times> real) option"
  closeCalls :: nat
  closeRejections :: nat
  snapshotReads :: nat
  stopCalls :: nat
  drawn :: "snapshot list"
  svgContent :: "node list"
  console :: "string list"

definition initial :: world where
  "initial =
     \<lparr>audioContext = None, task = NotStarted, timer = None, playback = None,
      closeCalls = 0, closeRejections = 0, snapshotReads = 0, stopCalls = 0,
      drawn = [], svgContent = [], console = []\<rparr>"

definition close_ctx :: "world \<Rightarrow> world" where
  \<comment> \<open>\<open>audioContext.close()\<close> on a context that is not null\<close>
  "close_ctx w =
     (if audioContext w = Some Closed
      then w\<lparr>closeCalls := closeCalls w + 1, closeRejections := closeRejections w + 1\<rparr>
      else w\<lparr>closeCalls := closeCalls w + 1, audioContext := Some Closed\<rparr>)"

definition callDrawChart ::
  "(real \<times> real) option \<Rightarrow> EQSetting list \<Rightarrow> 8 word list \<Rightarrow> real \<Rightarrow> string option
     \<Rightarrow> world \<Rightarrow> world" where
  "callDrawChart container eqSettings dataArray sampleRate message w =
     w\<lparr>drawn := drawn w @
                 [\<lparr>magnitudes = dataArray, rate = sampleRate, diagnosticMessage = message\<rparr>],
       svgContent := drawChart container eqSettings dataArray sampleRate message (svgContent w)\<rparr>"

definition fftSize :: nat where "fftSize = 2048"

definition frequencyBinCount :: nat where "frequencyBinCount = fftSize div 2"

definition getByteFrequencyData :: "8 word list \<Rightarrow> 8 word list \<Rightarrow> 8 word list" where
  \<comment> \<open>the analyser copies its current spectrum into the array it is given: what does not
      fit is dropped, what it does not reach is left as it was\<close>
  "getByteFrequencyData spectrum dataArray =
     take (length dataArray) spectrum @ drop (length spectrum) dataArray"

definition processAudio_begin :: "bool \<Rightarrow> world \<Rightarrow> world" where
  \<comment> \<open>up to \<open>await audioBlob.arrayBuffer()\<close>; the flag says whether the host lets the
      context be constructed. A rejection of \<open>processAudio\<close> goes to \<open>console.error\<close>.\<close>
  "processAudio_begin constructed w =
     (if constructed then w\<lparr>audioContext := Some Running, task := AwaitingBytes\<rparr>
      else w\<lparr>task := Rejected, console := console w @ [''AudioContext unavailable'']\<rparr>)"

definition processAudio_bytes :: "bool \<Rightarrow> world \<Rightarrow> world" where
  \<comment> \<open>\<open>arrayBuffer()\<close> has settled; then \<open>decodeAudioData\<close> is awaited\<close>
  "processAudio_bytes ok w =
     (if ok then w\<lparr>task := AwaitingDecode\<rparr>
      else w\<lparr>task := Rejected, console := console w @ [''arrayBuffer failed'']\<rparr>)"

definition processAudio_decoded ::
  "(real \<times> real) option \<Rightarrow> EQSetting list \<Rightarrow> AudioBuffer option \<Rightarrow> world \<Rightarrow> world" where
  \<comment> \<open>\<open>decodeAudioData\<close> has settled: \<open>None\<close> is the \<open>catch\<close> block, \<open>Some audioBuffer\<close>
      the rest of the function up to \<open>setTimeout\<close>\<close>
  "processAudio_decoded container eqSettings decoded w =
     (case decoded of
        None \<Rightarrow>
          let w1 = w\<lparr>console := console w @ [''Error decoding audio data:'']\<rparr>;
              w2 = callDrawChart container eqSettings [] 0 (Some ''Error decoding audio file.'') w1;
              w3 = (if audioContext w2 \<noteq> None then close_ctx w2 else w2)
          in w3\<lparr>task := Resolved\<rparr>
      | Some audioBuffer \<Rightarrow>
          w\<lparr>playback := Some (min (1 / 10) (buf_duration audioBuffer), 5),
            timer := Some audioBuffer,
            task := Resolved\<rparr>)"

definition timerCallback ::
  "(real \<times> real) option \<Rightarrow> EQSetting list \<Rightarrow> AudioBuffer \<Rightarrow> 8 word list \<Rightarrow> world \<Rightarrow> world" where
  \<comment> \<open>the function given to \<open>setTimeout\<close>; \<open>spectrum\<close> is what the analyser holds when
      it runs\<close>
  "timerCallback container eqSettings audioBuffer spectrum w =
     (if audioContext w = None \<or> audioContext w = Some Closed then w
      else
        let bufferLength = frequencyBinCount;
            dataArray = getByteFrequencyData spectrum (replicate bufferLength 0);
            w1 = w\<lparr>snapshotReads := snapshotReads w + 1\<rparr>;
            w2 = w1\<lparr>stopCalls := stopCalls w1 + 1\<rparr>;
            w3 = (if list_ex (\<lambda>d. 0 < d) dataArray
                  then callDrawChart container eqSettings dataArray
                         (buf_sampleRate audioBuffer) None w2
                  else callDrawChart container eqSettings [] 0
                         (Some ''Could not visualize audio: sample may be silent.'')
                         (w2\<lparr>console := console w2 @
                               [''Analyser returned no frequency data. The audio might be silent at the snapshot point.'']\<rparr>))
        in close_ctx w3)"

definition cleanup :: "world \<Rightarrow> world" where
  \<comment> \<open>the function the effect returns\<close>
  "cleanup w =
     (if audioContext w \<noteq> None \<and> audioContext w \<noteq> Some Closed then close_ctx w else w)"

text \<open>
  What the host can do to one run of the effect: run its body, settle the two awaited
  promises, fire the timer, run the cleanup. An event that nothing is waiting for
  changes nothing, and the body of the effect returns at once when
  \<open>d3Container.current\<close> is null.
\<close>

datatype event =
    Mount bool
  | Bytes bool
  | Decode "AudioBuffer option"
  | Timeout "8 word list"
  | Cleanup

fun step :: "(real \<times> real) option \<Rightarrow> EQSetting list \<Rightarrow> event \<Rightarrow> world \<Rightarrow> world" where
  "step container eqSettings (Mount constructed) w =
     (if task w = NotStarted \<and> container \<noteq> None then processAudio_begin constructed w else w)"
| "step container eqSettings (Bytes ok) w =
     (if task w = AwaitingBytes then processAudio_bytes ok w else w)"
| "step container eqSettings (Decode decoded) w =
     (if task w = AwaitingDecode then processAudio_decoded container eqSettings decoded w else w)"
| "step container eqSettings (Timeout spectrum) w =
     (case timer w of
        None \<Rightarrow> w
      | Some audioBuffer \<Rightarrow>
          timerCallback container eqSettings audioBuffer spectrum (w\<lparr>timer := None\<rparr>))"
| "step container eqSettings Cleanup w = cleanup w"

fun run :: "(real \<times> real) option \<Rightarrow> EQSetting list \<Rightarrow> event list \<Rightarrow> world \<Rightarrow> world" where
  "run container eqSettings [] w = w"
| "run container eqSettings (e # es) w = run container eqSettings es (step container eqSettings e w)"

text \<open>
  The calls of \<open>close()\<close> add up: one call closes the context, and every other call
  found it closed and was rejected.
\<close>

definition closeAccounted :: "world \<Rightarrow> bool" where
  "closeAccounted w \<longleftrightarrow>
     closeCalls w = closeRejections w + (if audioContext w = Some Closed then 1 else 0) \<and>
     (task w = NotStarted \<longrightarrow> audioContext w = None)"

text \<open>
  An adjustment point is within the tolerance of a frequency \<open>f\<close> when its own frequency
  is a positive number whose decimal logarithm is less than 0.1 away from that of \<open>f\<close>.
\<close>

definition withinTolerance :: "real \<Rightarrow> EQSetting \<Rightarrow> bool" where
  "withinTolerance f p \<longleftrightarrow> 0 < frequency p \<and> \<bar>log 10 (frequency p) - log 10 f\<bar> < 1 / 10"

section \<open>Facts about logarithms and lists\<close>

lemma log10_close_iff:
  assumes "0 < a" "0 < b"
  shows "\<bar>log 10 a - log 10 b\<bar> < 1 / 10 \<longleftrightarrow> a ^ 10 < 10 * b ^ 10 \<and> b ^ 10 < 10 * a ^ 10"
proof -
  have d: "10 * (log 10 a - log 10 b) = log 10 (a ^ 10) - log 10 (b ^ 10)"
    using assms by (simp add: log_nat_power)
  have pa: "0 < a ^ 10" and pb: "0 < b ^ 10" using assms by simp_all
  have l: "log 10 (a ^ 10) - log 10 (b ^ 10) < 1 \<longleftrightarrow> a ^ 10 < 10 * b ^ 10"
  proof -
    have "log 10 (10 * b ^ 10) = 1 + log 10 (b ^ 10)"
      using pb by (simp add: log_mult)
    then have "log 10 (a ^ 10) - log 10 (b ^ 10) < 1 \<longleftrightarrow> log 10 (a ^ 10) < log 10 (10 * b ^ 10)"
      by linarith
    also have "\<dots> \<longleftrightarrow> a ^ 10 < 10 * b ^ 10"
      using pa pb by (subst log_less_cancel_iff) simp_all
    finally show ?thesis .
  qed
  have r: "- 1 < log 10 (a ^ 10) - log 10 (b ^ 10) \<longleftrightarrow> b ^ 10 < 10 * a ^ 10"
  proof -
    have "log 10 (10 * a ^ 10) = 1 + log 10 (a ^ 10)"
      using pa by (simp add: log_mult)
    then have "- 1 < log 10 (a ^ 10) - log 10 (b ^ 10) \<longleftrightarrow> log 10 (b ^ 10) < log 10 (10 * a ^ 10)"
      by linarith
    also have "\<dots> \<longleftrightarrow> b ^ 10 < 10 * a ^ 10"
      using pa pb by (subst log_less_cancel_iff) simp_all
    finally show ?thesis .
  qed
  have "\<bar>x\<bar> < 1 / 10 \<longleftrightarrow> - 1 < 10 * x \<and> 10 * x < 1" for x :: real
  proof
    show "\<bar>x\<bar> < 1 / 10 \<Longrightarrow> - 1 < 10 * x \<and> 10 * x < 1" by linarith
    show "- 1 < 10 * x \<and> 10 * x < 1 \<Longrightarrow> \<bar>x\<bar> < 1 / 10" by linarith
  qed
  then have "\<bar>log 10 a - log 10 b\<bar> < 1 / 10 \<longleftrightarrow>
        - 1 < 10 * (log 10 a - log 10 b) \<and> 10 * (log 10 a - log 10 b) < 1" .
  then show ?thesis unfolding d using l r by blast
qed

text \<open>
  For a bin of positive frequency, the test of the source says what the words say; an
  adjustment point whose frequency is zero or negative has a logarithm of \<open>-Infinity\<close> or
  \<open>NaN\<close> and is never close.
\<close>

lemma closeTo_iff:
  assumes "0 < f"
  shows "closeTo f eq \<longleftrightarrow> withinTolerance f eq"
  using assms by (simp add: closeTo_def js_log10_def withinTolerance_def)

text \<open>The same without logarithms, which evaluates on rational numbers.\<close>

lemma withinTolerance_code:
  assumes "0 < f"
  shows "withinTolerance f eq \<longleftrightarrow>
         0 < frequency eq \<and> frequency eq ^ 10 < 10 * f ^ 10 \<and> f ^ 10 < 10 * frequency eq ^ 10"
  using assms log10_close_iff [of "frequency eq" f] by (auto simp: withinTolerance_def)



lemma enumerate_nth: "enumerate 0 xs = map (\<lambda>i. (i, xs ! i)) [0..<length xs]"
  by (rule nth_equalityI) (simp_all add: nth_enumerate_eq)

section \<open>The renderer\<close>

subsection \<open>The examples of the specification\<close>

lemma fill_example_boost:
  "fill [\<lparr>frequency = 1000, gain = 3\<rparr>, \<lparr>frequency = 5000, gain = - 2\<rparr>]
     \<lparr>d_frequency = 1005, amplitude = a\<rparr> = ''#22c55e''"
  by (simp add: fill_def closeTo_iff withinTolerance_code)

lemma fill_example_cut:
  "fill [\<lparr>frequency = 1000, gain = 3\<rparr>, \<lparr>frequency = 5000, gain = - 2\<rparr>]
     \<lparr>d_frequency = 5010, amplitude = a\<rparr> = ''#ef4444''"
  by (simp add: fill_def closeTo_iff withinTolerance_code)

lemma fill_example_neutral:
  "fill [\<lparr>frequency = 1000, gain = 3\<rparr>, \<lparr>frequency = 5000, gain = - 2\<rparr>]
     \<lparr>d_frequency = 50, amplitude = a\<rparr> = ''#00BFFF''"
  by (simp add: fill_def closeTo_iff withinTolerance_code)

subsection \<open>Bar colour\<close>



subsection \<open>Bins\<close>

lemma binData_by_index:
  "binData dataArray sampleRate =
     map (\<lambda>i. \<lparr>d_frequency = real i * sampleRate / (2 * real (length dataArray)),
                amplitude = dataArray ! i\<rparr>)
         (filter (\<lambda>i. 20 \<le> real i * sampleRate / (2 * real (length dataArray)) \<and>
                      real i * sampleRate / (2 * real (length dataArray)) \<le> 20000)
                 [0..<length dataArray])"
  by (simp add: binData_def enumerate_nth filter_map comp_def)

lemma binData_in_range:
  "d \<in> set (binData dataArray sampleRate) \<Longrightarrow> 20 \<le> d_frequency d \<and> d_frequency d \<le> 20000"
  by (simp add: binData_def)

lemma bars_drawChart:
  "bars (drawChart (Some (cw, ch)) eqSettings dataArray sampleRate message svg) =
     (if cw - margin_left - margin_right \<le> 0 \<or> ch - margin_top - margin_bottom \<le> 0 then []
      else if length dataArray = 0 \<or> sampleRate = 0 then []
      else map (mkBar (cw - margin_left - margin_right) (ch - margin_top - margin_bottom)
                  (barWidth (cw - margin_left - margin_right) (binData dataArray sampleRate))
                  eqSettings)
               (binData dataArray sampleRate))"
  by (simp add: drawChart_def bars_def frame_def Let_def comp_def)

text \<open>
  C2. For non-empty magnitudes of length \<open>N\<close> and a sample rate \<open>R > 0\<close>, the bins of the
  renderer are, in index order, those of the indices \<open>i < N\<close> whose frequency
  \<open>i * R / (2 * N)\<close> lies in \<open>[20, 20000]\<close>, each with exactly that frequency and the
  magnitude at \<open>i\<close>; so when any bin is kept, the first has a frequency of at least 20 and
  the last of at most 20000.
\<close>

theorem bin_frequencies:
  assumes "dataArray \<noteq> []" and "0 < sampleRate"
  shows "binData dataArray sampleRate =
           map (\<lambda>i. \<lparr>d_frequency = real i * sampleRate / (2 * real (length dataArray)),
                      amplitude = dataArray ! i\<rparr>)
               (filter (\<lambda>i. 20 \<le> real i * sampleRate / (2 * real (length dataArray)) \<and>
                            real i * sampleRate / (2 * real (length dataArray)) \<le> 20000)
                       [0..<length dataArray])
       \<and> (binData dataArray sampleRate \<noteq> [] \<longrightarrow>
            20 \<le> d_frequency (hd (binData dataArray sampleRate)) \<and>
            d_frequency (last (binData dataArray sampleRate)) \<le> 20000)"
proof -
  have "20 \<le> d_frequency (hd (binData dataArray sampleRate)) \<and>
        d_frequency (last (binData dataArray sampleRate)) \<le> 20000"
    if "binData dataArray sampleRate \<noteq> []"
    using that binData_in_range [of "hd (binData dataArray sampleRate)" dataArray sampleRate]
      binData_in_range [of "last (binData dataArray sampleRate)" dataArray sampleRate]
    by simp
  then show ?thesis using binData_by_index by blast
qed

text \<open>
  Four magnitudes at 20000 Hz: the bins are at 0, 2500, 5000 and 7500 Hz, and the first
  is dropped.
\<close>

theorem bin_frequencies_witness:
  "[1, 2, 3, 4 :: 8 word] \<noteq> [] \<and> (0 :: real) < 20000
   \<and> binData [1, 2, 3, 4] 20000 \<noteq> []
   \<and> 20 \<le> d_frequency (hd (binData [1, 2, 3, 4] 20000))
   \<and> d_frequency (last (binData [1, 2, 3, 4] 20000)) \<le> 20000"
proof -
  have h1: "[1, 2, 3, 4 :: 8 word] \<noteq> []" and h2: "(0 :: real) < 20000" by simp_all
  have ne: "binData [1, 2, 3, 4] 20000 \<noteq> []"
    by (simp add: binData_def)
  from h1 h2 ne bin_frequencies [OF h1 h2] show ?thesis by blast
qed

subsection \<open>Bar width\<close>

text \<open>
  C5, as the source has it. Whenever bars are produced, each bar's width is the plot
  width divided by the number of kept bins, and that quotient is greater than 0; it is
  not raised to 1 when it is smaller than 1.
\<close>

theorem bar_width_positive:
  assumes "b \<in> set (bars (drawChart (Some (cw, ch)) eqSettings dataArray sampleRate message svg))"
  shows "bar_width b =
           Fin ((cw - margin_left - margin_right) / real (length (binData dataArray sampleRate)))
       \<and> 0 < (cw - margin_left - margin_right) / real (length (binData dataArray sampleRate))"
proof -
  let ?w = "cw - margin_left - margin_right"
  let ?data = "binData dataArray sampleRate"
  from assms have w: "0 < ?w" and m: "b \<in> mkBar ?w (ch - margin_top - margin_bottom)
        (barWidth ?w ?data) eqSettings ` set ?data"
    by (auto simp: bars_drawChart split: if_splits)
  then have "?data \<noteq> []" by auto
  then have n: "0 < real (length ?data)" by simp
  then have bw: "barWidth ?w ?data = Fin (?w / real (length ?data))"
    by (simp add: barWidth_def js_div_def)
  have pos: "0 < ?w / real (length ?data)" using w n by simp
  from m have "bar_width b = widthAttr (barWidth ?w ?data)" by (auto simp: mkBar_def)
  with bw pos show ?thesis by (simp add: widthAttr_def)
qed

text \<open>A container 470 wide gives a plot width of 400; two bins are kept, 200 wide each.\<close>

theorem bar_width_positive_witness:
  "bars (drawChart (Some (470, 160)) [] [1, 2, 3] 20000 None []) \<noteq> []
   \<and> bar_width (hd (bars (drawChart (Some (470, 160)) [] [1, 2, 3] 20000 None []))) = Fin 200"
proof -
  let ?bs = "bars (drawChart (Some (470, 160)) [] [1, 2, 3] 20000 None [])"
  have l: "length (binData [1, 2, 3] 20000) = 2"
    by (simp add: binData_def)
  have ne: "?bs \<noteq> []"
    by (simp add: bars_drawChart binData_def
        margin_left_def margin_right_def margin_top_def margin_bottom_def)
  then have "hd ?bs \<in> set ?bs" by simp
  from bar_width_positive [OF this] ne show ?thesis
    by (simp add: l margin_left_def margin_right_def)
qed

text \<open>
  The claim as stated fails: a container 71 wide gives a plot width of 1, three of the
  four bins at 20000 Hz are kept, and every bar is a third of a pixel wide.
\<close>

theorem bar_width_below_one_counterexample:
  "map bar_width (bars (drawChart (Some (71, 160)) [] [1, 1, 1, 1] 20000 None []))
     = [Fin (1 / 3), Fin (1 / 3), Fin (1 / 3)] \<and> (1 / 3 :: real) < 1"
  by (simp add: bars_drawChart binData_def barWidth_def js_div_def widthAttr_def mkBar_def
        margin_left_def margin_right_def margin_top_def margin_bottom_def)

subsection \<open>Degenerate geometry\<close>

text \<open>
  C6. When the plot width or the plot height (the container's width and height less the
  margins) is not positive, \<open>drawChart\<close> leaves the \<open>svg\<close> element empty, whatever the
  snapshot and the adjustment points: there is nothing drawn and no bar.
\<close>

theorem degenerate_geometry_empty:
  assumes "cw - margin_left - margin_right \<le> 0 \<or> ch - margin_top - margin_bottom \<le> 0"
  shows "drawChart (Some (cw, ch)) eqSettings dataArray sampleRate message svg = []
       \<and> bars (drawChart (Some (cw, ch)) eqSettings dataArray sampleRate message svg) = []"
  using assms by (auto simp: drawChart_def bars_def Let_def)

text \<open>A container of width 70 has a plot width of 0; one of height 60 a plot height of 0.\<close>

theorem degenerate_geometry_empty_witness:
  "(70 - margin_left - margin_right \<le> 0 \<or> 200 - margin_top - margin_bottom \<le> 0)
   \<and> drawChart (Some (70, 200)) [\<lparr>frequency = 1000, gain = 3\<rparr>] [9, 8] 44100 None [AxisLeft 3] = []
   \<and> (300 - margin_left - margin_right \<le> 0 \<or> 60 - margin_top - margin_bottom \<le> 0)
   \<and> drawChart (Some (300, 60)) [\<lparr>frequency = 1000, gain = 3\<rparr>] [9, 8] 44100 None [AxisLeft 3] = []"
proof -
  have h1: "70 - margin_left - margin_right \<le> 0 \<or> 200 - margin_top - margin_bottom \<le> 0"
    by (simp add: margin_left_def margin_right_def)
  have h2: "300 - margin_left - margin_right \<le> 0 \<or> 60 - margin_top - margin_bottom \<le> 0"
    by (simp add: margin_top_def margin_bottom_def)
  from h1 h2 degenerate_geometry_empty [OF h1] degenerate_geometry_empty [OF h2]
  show ?thesis by blast
qed

subsection \<open>Drawing twice\<close>

text \<open>
  C9. \<open>drawChart\<close> first removes what the \<open>svg\<close> element holds, so calling it a second
  time with the same snapshot, adjustment points and container size leaves exactly what
  the first call left.
\<close>

theorem drawChart_idempotent:
  "drawChart container eqSettings dataArray sampleRate message
     (drawChart container eqSettings dataArray sampleRate message svg)
   = drawChart container eqSettings dataArray sampleRate message svg"
  by (simp add: drawChart_def split: option.split prod.split)

subsection \<open>No bin in the audible range\<close>

lemma low_sample_rate_all_filtered:
  assumes "dataArray \<noteq> []" and "0 < sampleRate"
    and "sampleRate * (real (length dataArray) - 1) / (2 * real (length dataArray)) < 20"
    and "i < length dataArray"
  shows "real i * sampleRate / (2 * real (length dataArray)) < 20"
proof -
  have "real i \<le> real (length dataArray) - 1" using assms(4) by linarith
  then have "real i * sampleRate \<le> sampleRate * (real (length dataArray) - 1)"
    using assms(2) by (simp add: mult.commute mult_left_mono)
  then have "real i * sampleRate / (2 * real (length dataArray))
      \<le> sampleRate * (real (length dataArray) - 1) / (2 * real (length dataArray))"
    by (simp add: divide_right_mono)
  with assms(3) show ?thesis by linarith
qed

text \<open>
  C10. For non-empty magnitudes, a positive sample rate and a plot of positive width and
  height: when no bin frequency lies in \<open>[20, 20000]\<close>, \<open>drawChart\<close> draws the axes and
  labels and no bar. The bar width expression divides the positive plot width by the
  zero count of bins, which gives \<open>Infinity\<close> and is used by no bar.
\<close>

theorem no_audible_bins_no_bars:
  assumes "dataArray \<noteq> []" and "0 < sampleRate"
    and "0 < cw - margin_left - margin_right" and "0 < ch - margin_top - margin_bottom"
    and "\<forall>i<length dataArray.
           \<not> (20 \<le> real i * sampleRate / (2 * real (length dataArray)) \<and>
              real i * sampleRate / (2 * real (length dataArray)) \<le> 20000)"
  shows "drawChart (Some (cw, ch)) eqSettings dataArray sampleRate message svg
           = [G margin_left margin_top
                (frame (cw - margin_left - margin_right) (ch - margin_top - margin_bottom))]
       \<and> bars (drawChart (Some (cw, ch)) eqSettings dataArray sampleRate message svg) = []
       \<and> barWidth (cw - margin_left - margin_right) (binData dataArray sampleRate) = PosInf"
proof -
  have "filter (\<lambda>i. 20 \<le> real i * sampleRate / (2 * real (length dataArray)) \<and>
                      real i * sampleRate / (2 * real (length dataArray)) \<le> 20000)
                 [0..<length dataArray] = []"
    using assms(5) by (simp add: filter_empty_conv)
  then have e: "binData dataArray sampleRate = []"
    by (simp add: binData_by_index)
  have "barWidth (cw - margin_left - margin_right) (binData dataArray sampleRate) = PosInf"
    using assms(3) by (simp add: e barWidth_def js_div_def)
  moreover have "bars (drawChart (Some (cw, ch)) eqSettings dataArray sampleRate message svg) = []"
    by (simp add: bars_drawChart e)
  moreover have "drawChart (Some (cw, ch)) eqSettings dataArray sampleRate message svg
           = [G margin_left margin_top
                (frame (cw - margin_left - margin_right) (ch - margin_top - margin_bottom))]"
    using assms(1-4) by (simp add: drawChart_def e Let_def)
  ultimately show ?thesis by blast
qed

text \<open>
  Two magnitudes at a sample rate of 30 Hz: the bins are at 0 and 7.5 Hz, since
  \<open>30 * (2 - 1) / (2 * 2) < 20\<close>.
\<close>

theorem no_audible_bins_no_bars_witness:
  "[5, 7 :: 8 word] \<noteq> [] \<and> (0 :: real) < 30
   \<and> 0 < 170 - margin_left - margin_right \<and> 0 < 160 - margin_top - margin_bottom
   \<and> drawChart (Some (170, 160)) [] [5, 7] 30 None []
       = [G margin_left margin_top
            (frame (170 - margin_left - margin_right) (160 - margin_top - margin_bottom))]
   \<and> barWidth (170 - margin_left - margin_right) (binData [5, 7] 30) = PosInf"
proof -
  have h1: "[5, 7 :: 8 word] \<noteq> []" and h2: "(0 :: real) < 30" by simp_all
  have h3: "0 < 170 - margin_left - margin_right"
    by (simp add: margin_left_def margin_right_def)
  have h4: "0 < 160 - margin_top - margin_bottom"
    by (simp add: margin_top_def margin_bottom_def)
  have "real i * 30 / (2 * real (length [5, 7 :: 8 word])) < 20" if "i < length [5, 7 :: 8 word]" for i
    using low_sample_rate_all_filtered [OF h1 h2 _ that] by simp
  then have h5: "\<forall>i<length [5, 7 :: 8 word].
           \<not> (20 \<le> real i * 30 / (2 * real (length [5, 7 :: 8 word])) \<and>
              real i * 30 / (2 * real (length [5, 7 :: 8 word])) \<le> 20000)"
    by (meson not_le)
  from h1 h2 h3 h4 no_audible_bins_no_bars [OF h1 h2 h3 h4 h5] show ?thesis by blast
qed

section \<open>The capturer\<close>

lemmas run_simps = initial_def processAudio_begin_def processAudio_bytes_def
  processAudio_decoded_def cleanup_def close_ctx_def callDrawChart_def Let_def

subsection \<open>Decode failure\<close>

text \<open>
  C3. When \<open>decodeAudioData\<close> rejects, \<open>processAudio\<close> hands \<open>drawChart\<close> empty magnitudes,
  a sample rate of 0 and the message \<open>Error decoding audio file.\<close>, and returns: its
  promise is resolved, not rejected, and no timer is set.
\<close>

theorem decode_failure_snapshot:
  assumes "task w = AwaitingDecode"
  shows "drawn (step container eqSettings (Decode None) w) =
           drawn w @ [\<lparr>magnitudes = [], rate = 0,
                       diagnosticMessage = Some ''Error decoding audio file.''\<rparr>]
       \<and> task (step container eqSettings (Decode None) w) = Resolved
       \<and> timer (step container eqSettings (Decode None) w) = timer w"
  using assms
  by (simp add: processAudio_decoded_def callDrawChart_def close_ctx_def Let_def)

theorem decode_failure_snapshot_witness:
  "task (run (Some (470, 160)) [] [Mount True, Bytes True] initial) = AwaitingDecode
   \<and> drawn (step (Some (470, 160)) [] (Decode None) (run (Some (470, 160)) [] [Mount True, Bytes True] initial)) =
       [\<lparr>magnitudes = [], rate = 0, diagnosticMessage = Some ''Error decoding audio file.''\<rparr>]
   \<and> task (step (Some (470, 160)) [] (Decode None) (run (Some (470, 160)) [] [Mount True, Bytes True] initial)) = Resolved"
proof -
  have t: "task (run (Some (470, 160)) [] [Mount True, Bytes True] initial) = AwaitingDecode"
    by (simp add: run_simps)
  have d: "drawn (run (Some (470, 160)) [] [Mount True, Bytes True] initial) = []"
    by (simp add: run_simps)
  show ?thesis
    using t d decode_failure_snapshot [OF t, of "Some (470, 160)" "[]"] by simp
qed

subsection \<open>Silence\<close>

text \<open>
  C4. When the timer callback runs on an open context: if every magnitude read from the
  analyser is zero, \<open>drawChart\<close> is handed empty magnitudes, a sample rate of 0 and the
  message \<open>Could not visualize audio: sample may be silent.\<close>; if some magnitude is not
  zero, it is handed the magnitudes read and the sample rate of the decoded buffer, with
  no message.
\<close>

theorem silence_or_spectrum:
  assumes "audioContext w = Some Running"
  shows "((\<forall>d\<in>set (getByteFrequencyData spectrum (replicate frequencyBinCount 0)). d = 0) \<longrightarrow>
            drawn (timerCallback container eqSettings audioBuffer spectrum w) =
              drawn w @ [\<lparr>magnitudes = [], rate = 0,
                diagnosticMessage = Some ''Could not visualize audio: sample may be silent.''\<rparr>])
       \<and> ((\<exists>d\<in>set (getByteFrequencyData spectrum (replicate frequencyBinCount 0)). d \<noteq> 0) \<longrightarrow>
            drawn (timerCallback container eqSettings audioBuffer spectrum w) =
              drawn w @ [\<lparr>magnitudes = getByteFrequencyData spectrum (replicate frequencyBinCount 0),
                rate = buf_sampleRate audioBuffer, diagnosticMessage = None\<rparr>])"
proof -
  let ?dataArray = "getByteFrequencyData spectrum (replicate frequencyBinCount 0)"
  have some: "list_ex (\<lambda>d. 0 < d) ?dataArray \<longleftrightarrow> (\<exists>d\<in>set ?dataArray. d \<noteq> 0)"
    by (simp add: list_ex_iff word_greater_zero_iff)
  show ?thesis
    using assms
    by (auto simp: timerCallback_def Let_def some callDrawChart_def close_ctx_def)
qed

theorem silence_or_spectrum_witness:
  "audioContext (run (Some (470, 160)) [] [Mount True] initial) = Some Running
   \<and> getByteFrequencyData [] (replicate frequencyBinCount 0) = replicate 1024 0
   \<and> drawn (timerCallback None [] \<lparr>buf_sampleRate = 44100, buf_duration = 2\<rparr> []
        (run (Some (470, 160)) [] [Mount True] initial))
      = [\<lparr>magnitudes = [], rate = 0,
          diagnosticMessage = Some ''Could not visualize audio: sample may be silent.''\<rparr>]
   \<and> (\<exists>d\<in>set (getByteFrequencyData [7] (replicate frequencyBinCount 0)). d \<noteq> 0)
   \<and> drawn (timerCallback None [] \<lparr>buf_sampleRate = 44100, buf_duration = 2\<rparr> [7]
        (run (Some (470, 160)) [] [Mount True] initial))
      = [\<lparr>magnitudes = getByteFrequencyData [7] (replicate frequencyBinCount 0),
          rate = 44100, diagnosticMessage = None\<rparr>]"
proof -
  let ?w = "run (Some (470, 160)) [] [Mount True] initial"
  let ?b = "\<lparr>buf_sampleRate = 44100, buf_duration = 2\<rparr>"
  have r: "audioContext ?w = Some Running" and d: "drawn ?w = []"
    by (simp_all add: run_simps)
  have e: "getByteFrequencyData [] (replicate frequencyBinCount 0) = replicate 1024 0"
    by (simp add: getByteFrequencyData_def frequencyBinCount_def fftSize_def)
  have z: "\<forall>d\<in>set (getByteFrequencyData [] (replicate frequencyBinCount 0)). d = 0"
    by (simp add: getByteFrequencyData_def)
  have n: "\<exists>d\<in>set (getByteFrequencyData [7] (replicate frequencyBinCount 0)). d \<noteq> 0"
    by (simp add: getByteFrequencyData_def frequencyBinCount_def fftSize_def)
  show ?thesis
    using r d e z n silence_or_spectrum [OF r, of "[]" None "[]" ?b]
      silence_or_spectrum [OF r, of "[7]" None "[]" ?b]
    by simp
qed

subsection \<open>The timer after the context is released\<close>

text \<open>
  C8. When the timer callback runs while \<open>audioContext\<close> is null or closed, it changes
  nothing: no snapshot is read, no playback stopped, nothing closed, nothing drawn or
  logged.
\<close>

theorem timer_after_release_noop:
  assumes "audioContext w = None \<or> audioContext w = Some Closed"
  shows "timerCallback container eqSettings audioBuffer spectrum w = w"
  using assms by (auto simp: timerCallback_def)

text \<open>The cleanup runs between \<open>setTimeout\<close> and the timer.\<close>

theorem timer_after_release_noop_witness:
  "audioContext (run (Some (470, 160)) []
      [Mount True, Bytes True, Decode (Some \<lparr>buf_sampleRate = 44100, buf_duration = 2\<rparr>), Cleanup]
      initial) = Some Closed
   \<and> timerCallback None [] \<lparr>buf_sampleRate = 44100, buf_duration = 2\<rparr> [7]
       (run (Some (470, 160)) []
          [Mount True, Bytes True, Decode (Some \<lparr>buf_sampleRate = 44100, buf_duration = 2\<rparr>), Cleanup]
          initial)
     = run (Some (470, 160)) []
         [Mount True, Bytes True, Decode (Some \<lparr>buf_sampleRate = 44100, buf_duration = 2\<rparr>), Cleanup]
         initial"
proof -
  let ?w = "run (Some (470, 160)) []
      [Mount True, Bytes True, Decode (Some \<lparr>buf_sampleRate = 44100, buf_duration = 2\<rparr>), Cleanup]
      initial"
  have c: "audioContext ?w = Some Closed"
    by (simp add: run_simps)
  then have "audioContext ?w = None \<or> audioContext ?w = Some Closed" by simp
  from c timer_after_release_noop [OF this] show ?thesis by simp
qed

subsection \<open>Closing the context\<close>

text \<open>
  On the three plain paths \<open>close()\<close> is called once: the timer callback and the cleanup
  both look at the state of the context first.
\<close>

lemma close_once_success:
  "closeCalls (run (Some c) eqSettings
     [Mount True, Bytes True, Decode (Some b), Timeout s, Cleanup] initial) = 1"
  by (simp add: run_simps timerCallback_def)

lemma close_once_decode_failure:
  "closeCalls (run (Some c) eqSettings [Mount True, Bytes True, Decode None, Cleanup] initial) = 1"
  by (simp add: run_simps)

lemma close_once_early_disposal:
  "closeCalls (run (Some c) eqSettings
     [Mount True, Bytes True, Decode (Some b), Cleanup, Timeout s] initial) = 1"
  by (simp add: run_simps timerCallback_def)

text \<open>
  On every sequence of events the context is closed by at most one call of \<open>close()\<close>;
  a further call is one that the host rejects.
\<close>

lemma step_closeAccounted:
  assumes "closeAccounted w"
  shows "closeAccounted (step container eqSettings ev w)"
proof (cases ev)
  case (Mount constructed)
  with assms show ?thesis
    by (auto simp: closeAccounted_def processAudio_begin_def)
next
  case (Bytes ok)
  with assms show ?thesis
    by (auto simp: closeAccounted_def processAudio_bytes_def)
next
  case (Decode decoded)
  with assms show ?thesis
    by (cases decoded)
      (auto simp: closeAccounted_def processAudio_decoded_def callDrawChart_def close_ctx_def
         Let_def)
next
  case (Timeout spectrum)
  with assms show ?thesis
    by (cases "timer w")
      (auto simp: closeAccounted_def timerCallback_def callDrawChart_def close_ctx_def Let_def)
next
  case Cleanup
  with assms show ?thesis
    by (auto simp: closeAccounted_def cleanup_def close_ctx_def)
qed

lemma run_closeAccounted:
  "closeAccounted w \<Longrightarrow> closeAccounted (run container eqSettings es w)"
  by (induction es arbitrary: w) (simp_all add: step_closeAccounted)

lemma run_initial_closeAccounted: "closeAccounted (run container eqSettings es initial)"
  by (rule run_closeAccounted) (simp add: closeAccounted_def initial_def)

text \<open>
  C7. The context is to be closed exactly once on every path. The \<open>catch\<close> block of
  \<open>processAudio\<close> only tests that \<open>audioContext\<close> is not null: when the cleanup has closed
  the context while \<open>decodeAudioData\<close> was pending and the decoding then fails, \<open>close()\<close>
  is called a second time, on the closed context.
\<close>

theorem double_close_on_decode_failure_after_cleanup:
  "closeCalls
     (run (Some (470, 160)) [] [Mount True, Bytes True, Cleanup, Decode None] initial) = 2
   \<and> closeRejections
       (run (Some (470, 160)) [] [Mount True, Bytes True, Cleanup, Decode None] initial) = 1"
  by (simp add: run_simps)

end
